theory Spec2Isabelle
  imports Main
begin

section \<open>Data model\<close>

text \<open>
  The run-orchestration core of the ACP server, \<^verbatim>\<open>acp_sdk/server/server.py\<close>.
  \<^verbatim>\<open>create_app\<close> closes over two dictionaries, \<^verbatim>\<open>agents\<close> and \<^verbatim>\<open>runs\<close>, and
  defines the route functions over them. The dictionaries are the state that is passed
  and returned here; every \<^verbatim>\<open>raise\<close> of a route is an \<open>Inl\<close> result.

  Identifiers are strings: an \<^verbatim>\<open>AgentName\<close> is a Python \<^verbatim>\<open>str\<close>, a \<^verbatim>\<open>RunId\<close> is the
  text of a UUID.
\<close>

type_synonym RunId = string
type_synonym AgentName = string
type_synonym SessionId = string
type_synonym Message = string
type_synonym AwaitResume = string

text \<open>
  Modelled from the spec: the members of \<^verbatim>\<open>RunStatus\<close>. The declarations of
  \<^verbatim>\<open>acp_sdk.models\<close> are used by \<^verbatim>\<open>server.py\<close> but are not among the sources; the
  status values are the states the specification names (section 4.2 and the
  RunSnapshot fields of section 6).
\<close>

datatype RunStatus =
  CREATED | IN_PROGRESS | AWAITING | CANCELLING | CANCELLED | COMPLETED | FAILED

text \<open>
  Modelled from the spec: \<^verbatim>\<open>RunStatus.is_terminal\<close>, a property of the missing
  \<^verbatim>\<open>acp_sdk.models\<close>. Section 3: a run is "immutable once status is terminal
  (Completed, Failed, Cancelled)".
\<close>

definition is_terminal :: "RunStatus \<Rightarrow> bool" where
  "is_terminal st \<longleftrightarrow> st = COMPLETED \<or> st = FAILED \<or> st = CANCELLED"

text \<open>
  \<^verbatim>\<open>RunMode\<close> has the three members the \<^verbatim>\<open>match\<close> statements of \<^verbatim>\<open>create_run\<close> and
  \<^verbatim>\<open>resume_run\<close> name; their \<^verbatim>\<open>case _\<close> branch (\<^verbatim>\<open>NotImplementedError\<close>) has no
  member left to match.
\<close>

datatype RunMode = SYNC | ASYNC | STREAM

text \<open>
  Modelled from the spec: an event is one unit of handler output, a "tagged union of
  Message, Artifact, Await, StatusUpdate" (section 3).
\<close>

datatype Event =
  MessageEvent string | ArtifactEvent string | AwaitEvent | StatusUpdateEvent RunStatus

text \<open>
  Modelled from the spec: the fields of \<^verbatim>\<open>Run\<close> (missing \<^verbatim>\<open>acp_sdk.models\<close>), as
  section 3 and the RunSnapshot of section 6 list them.
\<close>

record Run =
  run_id :: RunId
  agent_name :: AgentName
  session_id :: "SessionId option"
  status :: RunStatus
  outputs :: "Event list"
  error :: "string option"

record Agent =
  name :: AgentName
  description :: string

text \<open>
  \<^verbatim>\<open>asyncio.Queue\<close>: \<^verbatim>\<open>maxsize\<close> (\<open>0\<close> is unbounded), the queued items in
  arrival order, and the shutdown flag of \<^verbatim>\<open>Queue.shutdown()\<close>.
\<close>

record 'a Queue =
  maxsize :: nat
  items :: "'a list"
  is_shutdown :: bool

text \<open>\<^verbatim>\<open>asyncio.Queue(maxsize)\<close>: a new queue is empty and open.\<close>

definition Queue_init :: "nat \<Rightarrow> 'a Queue" where
  "Queue_init n = \<lparr>maxsize = n, items = [], is_shutdown = False\<rparr>"

text \<open>\<^verbatim>\<open>Queue.full()\<close>: never full when \<^verbatim>\<open>maxsize <= 0\<close>.\<close>

definition full :: "'a Queue \<Rightarrow> bool" where
  "full q = (if maxsize q \<le> 0 then False else maxsize q \<le> length (items q))"

text \<open>
  \<^verbatim>\<open>await queue.put(item)\<close> has three outcomes: the item is appended; the queue is
  full and the caller stays suspended in \<^verbatim>\<open>put\<close>; the queue has been shut down and
  \<^verbatim>\<open>QueueShutDown\<close> is raised.
\<close>

datatype 'a put_result = Put_done "'a Queue" | Put_suspended | Put_shut_down

definition put :: "'a Queue \<Rightarrow> 'a \<Rightarrow> 'a put_result" where
  "put q x =
     (if is_shutdown q then Put_shut_down
      else if full q then Put_suspended
      else Put_done (q\<lparr>items := items q @ [x]\<rparr>))"

text \<open>
  The handle \<^verbatim>\<open>asyncio.create_task\<close> returns for \<^verbatim>\<open>bundle.execute(request.input)\<close>,
  an \<^verbatim>\<open>asyncio.Task\<close>, with the attributes \<^verbatim>\<open>Task.cancel()\<close> reads and writes: whether
  the task is done, its count of cancellation requests (\<^verbatim>\<open>_num_cancels_requested\<close>,
  what \<^verbatim>\<open>cancelling()\<close> returns), the state of the future it is waiting on, if any
  (\<^verbatim>\<open>_fut_waiter\<close>), and the flag \<^verbatim>\<open>_must_cancel\<close> that makes its next step throw
  \<^verbatim>\<open>CancelledError\<close> into the coroutine.
\<close>

datatype fut_state = PENDING | FUT_CANCELLED | FINISHED

record Task =
  task_input :: "Message list"
  task_done :: bool
  num_cancels_requested :: nat
  fut_waiter :: "fut_state option"
  must_cancel :: bool

text \<open>A new task is not done, has no cancellation request and waits on nothing.\<close>

definition create_task :: "Message list \<Rightarrow> Task" where
  "create_task inp =
     \<lparr>task_input = inp, task_done = False, num_cancels_requested = 0,
      fut_waiter = None, must_cancel = False\<rparr>"

text \<open>
  \<^verbatim>\<open>Task.cancel()\<close>, as in \<^verbatim>\<open>asyncio/tasks.py\<close>: nothing happens to a task that is done;
  otherwise the count of requests goes up by one, and either the pending future the
  task waits on is cancelled (\<^verbatim>\<open>Future.cancel()\<close> succeeds on a pending future only and
  the waiter is kept), or \<^verbatim>\<open>_must_cancel\<close> is set. Every call on a task that is not done
  is a request of its own. (The value \<^verbatim>\<open>cancel()\<close> returns is not used by
  \<^verbatim>\<open>server.py\<close>.)
\<close>

definition cancel :: "Task \<Rightarrow> Task" where
  "cancel t =
     (if task_done t then t
      else
        (let t1 = t\<lparr>num_cancels_requested := num_cancels_requested t + 1\<rparr>
         in case fut_waiter t1 of
              Some PENDING \<Rightarrow> t1\<lparr>fut_waiter := Some FUT_CANCELLED\<rparr>
            | _ \<Rightarrow> t1\<lparr>must_cancel := True\<rparr>))"

text \<open>
  \<^verbatim>\<open>RunBundle\<close> (its class is in the missing \<^verbatim>\<open>acp_sdk/server/bundle.py\<close>): the
  attributes \<^verbatim>\<open>server.py\<close> reads and writes. A bundle enters the registry only after
  \<^verbatim>\<open>create_run\<close> has assigned its task, so a registered bundle always has one.
\<close>

record RunBundle =
  agent :: Agent
  run :: Run
  task :: Task
  stream_queue :: "Event Queue"
  await_queue :: "AwaitResume Queue"

record RunCreateRequest =
  req_agent_name :: AgentName
  req_session_id :: "SessionId option"
  req_input :: "Message list"
  mode :: RunMode

record RunResumeRequest =
  await_resume :: AwaitResume
  resume_mode :: RunMode

text \<open>
  The state of one application: the two dictionaries of \<^verbatim>\<open>create_app\<close>, and the
  coroutines handed to the event loop by \<^verbatim>\<open>asyncio.create_task\<close>, named by the run
  they execute, in the order they were scheduled. A local variable \<^verbatim>\<open>bundle\<close> of a
  route refers to the registry's object; here it is the entry of \<open>runs\<close> under the run
  identifier.
\<close>

record App =
  agents :: "AgentName \<rightharpoonup> Agent"
  runs :: "RunId \<rightharpoonup> RunBundle"
  scheduled :: "RunId list"

text \<open>
  Errors. \<^verbatim>\<open>HTTPException(status_code, detail)\<close>: the detail text is determined by
  the identifier or status it is formatted from.
\<close>

datatype detail =
  Run_not_found RunId | Agent_not_found AgentName | Run_terminal RunStatus

datatype error = HTTPException nat detail | QueueShutDown

text \<open>
  What a route returns: \<^verbatim>\<open>return bundle.run\<close> (status 200), a \<^verbatim>\<open>JSONResponse\<close> with
  its status code and the dumped run, or a \<^verbatim>\<open>StreamingResponse\<close> over
  \<^verbatim>\<open>stream_sse(bundle)\<close>, which reads the bundle of the given run.
\<close>

datatype response =
  RunResponse Run | JSONResponse nat Run | StreamingResponse RunId

text \<open>
  A route is a coroutine: it either returns, or it is suspended at one of its \<^verbatim>\<open>await\<close>
  expressions: in \<^verbatim>\<open>await bundle.join()\<close>, or in \<^verbatim>\<open>await bundle.await_queue.put(...)\<close>
  on a full queue.
\<close>

datatype wait = Join RunId | Put RunId RunResumeRequest

datatype outcome = Done response | Suspended wait

section \<open>The routes of \<^verbatim>\<open>server.py\<close>\<close>

text \<open>
  \<^verbatim>\<open>runs.get(run_id)\<close> is \<^verbatim>\<open>None\<close> for a missing key, and a bundle object is truthy, so
  \<^verbatim>\<open>not bundle\<close> holds exactly for a missing key.
\<close>

definition find_run_bundle :: "App \<Rightarrow> RunId \<Rightarrow> error + RunBundle" where
  "find_run_bundle s rid =
     (case runs s rid of
        None \<Rightarrow> Inl (HTTPException 404 (Run_not_found rid))
      | Some bundle \<Rightarrow> Inr bundle)"

definition find_agent :: "App \<Rightarrow> AgentName \<Rightarrow> error + Agent" where
  "find_agent s nm =
     (case agents s nm of
        None \<Rightarrow> Inl (HTTPException 404 (Agent_not_found nm))
      | Some a \<Rightarrow> Inr a)"

text \<open>
  Modelled from the spec: the constructors \<^verbatim>\<open>Run(agent_name, session_id)\<close> and
  \<^verbatim>\<open>RunBundle(agent, run)\<close> of the missing modules. Section 4.2: \<^verbatim>\<open>start\<close>
  "constructs Run in Created state"; section 3: the accumulated output is what was
  produced so far and the terminal error is present only in Failed status; section 9:
  an outbound event channel and "an inbound single-slot resume channel per Run Bundle".
  The run identifier is generated by the constructor; it is an argument here.
\<close>

definition Run_init :: "RunId \<Rightarrow> AgentName \<Rightarrow> SessionId option \<Rightarrow> Run" where
  "Run_init rid nm sid =
     \<lparr>run_id = rid, agent_name = nm, session_id = sid, status = CREATED,
      outputs = [], error = None\<rparr>"

definition RunBundle_init :: "Agent \<Rightarrow> Run \<Rightarrow> Task \<Rightarrow> RunBundle" where
  "RunBundle_init a r t =
     \<lparr>agent = a, run = r, task = t, stream_queue = Queue_init 0,
      await_queue = Queue_init 1\<rparr>"

text \<open>
  \<^verbatim>\<open>create_run\<close>. The third argument is the identifier the \<^verbatim>\<open>Run\<close> constructor
  generates.
\<close>

definition create_run :: "App \<Rightarrow> RunCreateRequest \<Rightarrow> RunId \<Rightarrow> (error + outcome) \<times> App" where
  "create_run s request new_id =
     (case find_agent s (req_agent_name request) of
        Inl e \<Rightarrow> (Inl e, s)
      | Inr a \<Rightarrow>
          (let bundle = RunBundle_init a
                 (Run_init new_id (name a) (req_session_id request))
                 (create_task (req_input request));
               s' = s\<lparr>scheduled := scheduled s @ [new_id],
                      runs := (runs s)(run_id (run bundle) \<mapsto> bundle)\<rparr>
           in case mode request of
                STREAM \<Rightarrow> (Inr (Done (StreamingResponse (run_id (run bundle)))), s')
              | SYNC \<Rightarrow> (Inr (Suspended (Join (run_id (run bundle)))), s')
              | ASYNC \<Rightarrow> (Inr (Done (JSONResponse 202 (run bundle))), s')))"

definition read_run :: "App \<Rightarrow> RunId \<Rightarrow> (error + outcome) \<times> App" where
  "read_run s rid =
     (case find_run_bundle s rid of
        Inl e \<Rightarrow> (Inl e, s)
      | Inr bundle \<Rightarrow> (Inr (Done (RunResponse (run bundle))), s))"

text \<open>
  \<^verbatim>\<open>resume_run\<close>: the stream queue is replaced by \<^verbatim>\<open>asyncio.Queue()\<close> first, then the
  payload is put on the await queue, then the mode decides the answer.
\<close>

definition resume_run :: "App \<Rightarrow> RunId \<Rightarrow> RunResumeRequest \<Rightarrow> (error + outcome) \<times> App" where
  "resume_run s rid request =
     (case find_run_bundle s rid of
        Inl e \<Rightarrow> (Inl e, s)
      | Inr bundle0 \<Rightarrow>
          (let bundle = bundle0\<lparr>stream_queue := Queue_init 0\<rparr>;
               s1 = s\<lparr>runs := (runs s)(rid \<mapsto> bundle)\<rparr>
           in case put (await_queue bundle) (await_resume request) of
                Put_shut_down \<Rightarrow> (Inl QueueShutDown, s1)
              | Put_suspended \<Rightarrow> (Inr (Suspended (Put rid request)), s1)
              | Put_done q \<Rightarrow>
                  (let bundle' = bundle\<lparr>await_queue := q\<rparr>;
                       s2 = s\<lparr>runs := (runs s)(rid \<mapsto> bundle')\<rparr>
                   in case resume_mode request of
                        STREAM \<Rightarrow> (Inr (Done (StreamingResponse rid)), s2)
                      | SYNC \<Rightarrow> (Inr (Suspended (Join rid)), s2)
                      | ASYNC \<Rightarrow> (Inr (Done (JSONResponse 202 (run bundle'))), s2))))"

definition cancel_run :: "App \<Rightarrow> RunId \<Rightarrow> (error + outcome) \<times> App" where
  "cancel_run s rid =
     (case find_run_bundle s rid of
        Inl e \<Rightarrow> (Inl e, s)
      | Inr bundle \<Rightarrow>
          if is_terminal (status (run bundle))
          then (Inl (HTTPException 403 (Run_terminal (status (run bundle)))), s)
          else
            (let bundle' = bundle\<lparr>task := cancel (task bundle),
                                  run := (run bundle)\<lparr>status := CANCELLING\<rparr>\<rparr>
             in (Inr (Done (JSONResponse 202 (run bundle'))),
                 s\<lparr>runs := (runs s)(rid \<mapsto> bundle')\<rparr>)))"

text \<open>
  The stream queue of the bundle registered under an identifier is open: a reader of
  \<^verbatim>\<open>stream_sse(bundle)\<close> has not been told that the stream is over.
\<close>

definition stream_open :: "App \<Rightarrow> RunId \<Rightarrow> bool" where
  "stream_open s rid =
     (case runs s rid of
        None \<Rightarrow> False
      | Some bundle \<Rightarrow> \<not> is_shutdown (stream_queue bundle))"

section \<open>The run bundle's own behaviour\<close>

text \<open>
  \<^verbatim>\<open>RunBundle.join\<close> and \<^verbatim>\<open>RunBundle.execute\<close> are called by \<^verbatim>\<open>server.py\<close>; their
  bodies are in \<^verbatim>\<open>acp_sdk/server/bundle.py\<close>, which is not among the sources.
\<close>

text \<open>
  Modelled from the spec: \<^verbatim>\<open>RunBundle.join\<close> (missing \<^verbatim>\<open>bundle.py\<close>). Section 4.2,
  \<^verbatim>\<open>join()\<close>: "blocks the calling context until the Run reaches a terminal state or
  the first Await (whichever comes first ...); returns the full Run snapshot." \<open>join b\<close>
  says that a caller waiting in \<^verbatim>\<open>join\<close> is released in the bundle state \<open>b\<close>.
\<close>

definition join :: "RunBundle \<Rightarrow> bool" where
  "join bundle \<longleftrightarrow> is_terminal (status (run bundle)) \<or> status (run bundle) = AWAITING"

text \<open>
  The rest of a route of \<^verbatim>\<open>server.py\<close> that was suspended in \<^verbatim>\<open>await bundle.join()\<close>:
  once \<^verbatim>\<open>join\<close> has released it, \<^verbatim>\<open>return bundle.run\<close>. \<open>None\<close>: the route is still
  suspended.
\<close>

definition after_join :: "App \<Rightarrow> RunId \<Rightarrow> response option" where
  "after_join s rid =
     (case runs s rid of
        None \<Rightarrow> None
      | Some bundle \<Rightarrow> if join bundle then Some (RunResponse (run bundle)) else None)"

text \<open>\<^verbatim>\<open>Queue.shutdown()\<close> closes a queue for its readers and writers.\<close>

definition shutdown :: "'a Queue \<Rightarrow> 'a Queue" where
  "shutdown q = q\<lparr>is_shutdown := True\<rparr>"

text \<open>
  Modelled from the spec: what \<^verbatim>\<open>RunBundle.execute\<close> (missing \<^verbatim>\<open>bundle.py\<close>) does with
  one item of the handler. Section 2: the bundle "records them on the Run and forwards
  them" to the consumers.
\<close>

definition emit :: "RunBundle \<Rightarrow> Event \<Rightarrow> RunBundle" where
  "emit b e =
     b\<lparr>run := (run b)\<lparr>outputs := outputs (run b) @ [e]\<rparr>,
       stream_queue := (stream_queue b)\<lparr>items := items (stream_queue b) @ [e]\<rparr>\<rparr>"

text \<open>
  Modelled from the spec: the two other things the execution unit does to its bundle
  at a transition of section 4.2: it writes the new status, and it ends the stream for
  its readers.
\<close>

definition set_status :: "RunBundle \<Rightarrow> RunStatus \<Rightarrow> RunBundle" where
  "set_status b st = b\<lparr>run := (run b)\<lparr>status := st\<rparr>\<rparr>"

definition close_stream :: "RunBundle \<Rightarrow> RunBundle" where
  "close_stream b = b\<lparr>stream_queue := shutdown (stream_queue b)\<rparr>"

text \<open>
  Modelled from the spec: one step of \<^verbatim>\<open>RunBundle.execute\<close> (missing \<^verbatim>\<open>bundle.py\<close>), the
  execution unit that drives the handler. One rule per transition of section 4.2:
  Created to InProgress when the unit runs; InProgress to Awaiting when the handler
  yields an Await; Awaiting to InProgress when "exactly one resume payload delivered
  via the resume-data channel unblocks the handler, which consumes it";
  InProgress/Awaiting to Completed when the handler's sequence is exhausted, to Failed
  when it raises, "captured as the Run's terminal error"; Cancelling to Cancelled "once
  the execution unit has actually stopped"; "Cancelled/Completed/Failed are terminal: no
  further Events are emitted". Sections 4.2 and 4.4: a reader of the stream terminates
  "when the Run becomes terminal or enters Awaiting".
\<close>

inductive execute :: "RunBundle \<Rightarrow> RunBundle \<Rightarrow> bool" where
  started:
    "status (run b) = CREATED \<Longrightarrow> execute b (set_status b IN_PROGRESS)"
| emitted:
    "status (run b) = IN_PROGRESS \<Longrightarrow> e \<noteq> AwaitEvent \<Longrightarrow> execute b (emit b e)"
| awaited:
    "status (run b) = IN_PROGRESS \<Longrightarrow>
     execute b (close_stream (set_status (emit b AwaitEvent) AWAITING))"
| resumed:
    "status (run b) = AWAITING \<Longrightarrow> items (await_queue b) = p # ps \<Longrightarrow>
     execute b ((set_status b IN_PROGRESS)\<lparr>await_queue := (await_queue b)\<lparr>items := ps\<rparr>\<rparr>)"
| completed:
    "status (run b) = IN_PROGRESS \<or> status (run b) = AWAITING \<Longrightarrow>
     execute b (close_stream (set_status b COMPLETED))"
| failed:
    "status (run b) = IN_PROGRESS \<or> status (run b) = AWAITING \<Longrightarrow>
     execute b (close_stream (b\<lparr>run := (run b)\<lparr>status := FAILED, error := Some msg\<rparr>\<rparr>))"
| stopped:
    "status (run b) = CANCELLING \<Longrightarrow> execute b (close_stream (set_status b CANCELLED))"

section \<open>The whole server as a transition system\<close>

text \<open>
  One step of the server is one route call of \<^verbatim>\<open>server.py\<close>, the completion of a
  \<^verbatim>\<open>put\<close> in which \<^verbatim>\<open>resume_run\<close> was suspended, one step of the execution unit of a
  registered bundle, or a reader of a \<^verbatim>\<open>StreamingResponse\<close> taking the oldest item of
  the bundle's stream queue (\<^verbatim>\<open>Queue.get()\<close>; the invariants below hold with or without
  this last kind of step). Run identifiers are unique (section 3: "opaque, unique,
  generated at creation"), so \<^verbatim>\<open>create_run\<close> is called with an identifier that is not
  yet a key.
\<close>

inductive step :: "App \<Rightarrow> App \<Rightarrow> bool" where
  create: "runs s new_id = None \<Longrightarrow> step s (snd (create_run s request new_id))"
| read: "step s (snd (read_run s rid))"
| resume: "step s (snd (resume_run s rid resume_request))"
| resume_put:
    "runs s rid = Some b \<Longrightarrow> put (await_queue b) p = Put_done q \<Longrightarrow>
     step s (s\<lparr>runs := (runs s)(rid \<mapsto> b\<lparr>await_queue := q\<rparr>)\<rparr>)"
| cancelling: "step s (snd (cancel_run s rid))"
| handler:
    "runs s rid = Some b \<Longrightarrow> execute b b' \<Longrightarrow>
     step s (s\<lparr>runs := (runs s)(rid \<mapsto> b')\<rparr>)"
| streamed:
    "runs s rid = Some b \<Longrightarrow> items (stream_queue b) = e # es \<Longrightarrow>
     step s (s\<lparr>runs := (runs s)(rid \<mapsto>
       b\<lparr>stream_queue := (stream_queue b)\<lparr>items := es\<rparr>\<rparr>)\<rparr>)"

inductive steps :: "App \<Rightarrow> App \<Rightarrow> bool" where
  no_step: "steps s s"
| more: "steps s t \<Longrightarrow> step t u \<Longrightarrow> steps s u"

text \<open>
  The ordering of the statuses: Created, then InProgress and Awaiting (which alternate),
  then the terminal ones. Cancelling is "a transient sub-state of InProgress/Awaiting"
  (section 4.2) and ranks with them.
\<close>

fun status_rank :: "RunStatus \<Rightarrow> nat" where
  "status_rank CREATED = 0"
| "status_rank IN_PROGRESS = 1"
| "status_rank AWAITING = 1"
| "status_rank CANCELLING = 1"
| "status_rank CANCELLED = 2"
| "status_rank COMPLETED = 2"
| "status_rank FAILED = 2"

section \<open>Example states\<close>

definition echo_agent :: Agent where
  "echo_agent = \<lparr>name = ''echo'', description = ''repeats its input''\<rparr>"

definition example_run :: "RunStatus \<Rightarrow> Run" where
  "example_run st =
     \<lparr>run_id = ''r1'', agent_name = ''echo'', session_id = None, status = st,
      outputs = [MessageEvent ''hi''], error = None\<rparr>"

definition example_bundle :: "RunStatus \<Rightarrow> RunBundle" where
  "example_bundle st =
     \<lparr>agent = echo_agent, run = example_run st, task = create_task [''hi''],
      stream_queue = \<lparr>maxsize = 0, items = [MessageEvent ''hi''], is_shutdown = False\<rparr>,
      await_queue = Queue_init 1\<rparr>"

definition example_app :: "RunStatus \<Rightarrow> App" where
  "example_app st =
     \<lparr>agents = [''echo'' \<mapsto> echo_agent], runs = [''r1'' \<mapsto> example_bundle st],
      scheduled = [''r1'']\<rparr>"

definition example_create :: "RunMode \<Rightarrow> RunCreateRequest" where
  "example_create m =
     \<lparr>req_agent_name = ''echo'', req_session_id = None, req_input = [''hello''], mode = m\<rparr>"

definition unknown_create :: RunCreateRequest where
  "unknown_create =
     \<lparr>req_agent_name = ''nobody'', req_session_id = None, req_input = [''hello''], mode = ASYNC\<rparr>"

definition example_resume :: "RunMode \<Rightarrow> RunResumeRequest" where
  "example_resume m = \<lparr>await_resume = ''ok'', resume_mode = m\<rparr>"

text \<open>An application with one agent and no run yet.\<close>

definition empty_app :: App where
  "empty_app = \<lparr>agents = [''echo'' \<mapsto> echo_agent], runs = Map.empty, scheduled = []\<rparr>"

text \<open>
  The request that starts the example run, and the example run once its handler has
  emitted a message and then an Await that nobody has read from the stream.
\<close>

definition hi_create :: RunCreateRequest where
  "hi_create =
     \<lparr>req_agent_name = ''echo'', req_session_id = None, req_input = [''hi''], mode = ASYNC\<rparr>"

definition awaiting_bundle :: RunBundle where
  "awaiting_bundle =
     \<lparr>agent = echo_agent,
      run = \<lparr>run_id = ''r1'', agent_name = ''echo'', session_id = None, status = AWAITING,
             outputs = [MessageEvent ''hi'', AwaitEvent], error = None\<rparr>,
      task = create_task [''hi''],
      stream_queue =
        \<lparr>maxsize = 0, items = [MessageEvent ''hi'', AwaitEvent], is_shutdown = True\<rparr>,
      await_queue = Queue_init 1\<rparr>"

definition awaiting_app :: App where
  "awaiting_app =
     \<lparr>agents = [''echo'' \<mapsto> echo_agent], runs = [''r1'' \<mapsto> awaiting_bundle],
      scheduled = [''r1'']\<rparr>"

text \<open>That bundle after a resume with the payload \<open>ok\<close>.\<close>

definition resumed_bundle :: RunBundle where
  "resumed_bundle =
     awaiting_bundle
       \<lparr>stream_queue := Queue_init 0,
        await_queue := \<lparr>maxsize = 1, items = [''ok''], is_shutdown = False\<rparr>\<rparr>"

text \<open>
  The example run, InProgress, after one or more \<^verbatim>\<open>cancel_run\<close> requests: \<open>n\<close> is the
  number of cancellation requests its task has received.
\<close>

definition cancelling_bundle :: "nat \<Rightarrow> RunBundle" where
  "cancelling_bundle n =
     \<lparr>agent = echo_agent, run = example_run CANCELLING,
      task = \<lparr>task_input = [''hi''], task_done = False, num_cancels_requested = n,
              fut_waiter = None, must_cancel = True\<rparr>,
      stream_queue = \<lparr>maxsize = 0, items = [MessageEvent ''hi''], is_shutdown = False\<rparr>,
      await_queue = Queue_init 1\<rparr>"

definition cancelling_app :: "nat \<Rightarrow> App" where
  "cancelling_app n =
     \<lparr>agents = [''echo'' \<mapsto> echo_agent], runs = [''r1'' \<mapsto> cancelling_bundle n],
      scheduled = [''r1'']\<rparr>"

text \<open>
  The example run, InProgress, after its handler's sequence was exhausted: Completed,
  its stream closed.
\<close>

definition completed_bundle :: RunBundle where
  "completed_bundle =
     \<lparr>agent = echo_agent, run = example_run COMPLETED, task = create_task [''hi''],
      stream_queue = \<lparr>maxsize = 0, items = [MessageEvent ''hi''], is_shutdown = True\<rparr>,
      await_queue = Queue_init 1\<rparr>"

definition completed_app :: App where
  "completed_app =
     \<lparr>agents = [''echo'' \<mapsto> echo_agent], runs = [''r1'' \<mapsto> completed_bundle],
      scheduled = [''r1'']\<rparr>"

text \<open>
  The Awaiting example after \<^verbatim>\<open>cancel_run\<close> and the stop of its execution unit.
\<close>

definition after_cancel_and_stop :: App where
  "after_cancel_and_stop =
     (example_app AWAITING)\<lparr>runs := [''r1'' \<mapsto>
        close_stream (set_status
          ((example_bundle CANCELLING)\<lparr>task := cancel (create_task [''hi''])\<rparr>)
          CANCELLED)]\<rparr>"

text \<open>
  The Completed example after a rejected \<^verbatim>\<open>cancel_run\<close>, the creation of a second run
  and a \<^verbatim>\<open>resume_run\<close> of the completed one.
\<close>

definition after_resume_of_completed :: App where
  "after_resume_of_completed =
     snd (resume_run
       (snd (create_run (snd (cancel_run (example_app COMPLETED) ''r1''))
               (example_create ASYNC) ''r2''))
       ''r1'' (example_resume ASYNC))"

section \<open>Unknown identifiers\<close>

text \<open>
  C6. Every route that takes a run identifier (\<^verbatim>\<open>read_run\<close>, \<^verbatim>\<open>resume_run\<close>,
  \<^verbatim>\<open>cancel_run\<close>) raises the 404 "not found" error when the identifier is not a key of
  the registry, and \<^verbatim>\<open>create_run\<close> raises it when the agent name is not registered.
  The error is the route's result: nothing is attempted again and the state is the
  state before the call.
\<close>

theorem not_found_surfaced:
  "(runs s rid = None \<longrightarrow>
      read_run s rid = (Inl (HTTPException 404 (Run_not_found rid)), s) \<and>
      resume_run s rid resume = (Inl (HTTPException 404 (Run_not_found rid)), s) \<and>
      cancel_run s rid = (Inl (HTTPException 404 (Run_not_found rid)), s)) \<and>
   (agents s (req_agent_name request) = None \<longrightarrow>
      create_run s request new_id =
        (Inl (HTTPException 404 (Agent_not_found (req_agent_name request))), s))"
  by (simp add: read_run_def resume_run_def cancel_run_def create_run_def
      find_run_bundle_def find_agent_def)

theorem not_found_surfaced_witness:
  "runs (example_app COMPLETED) ''r2'' = None \<and>
   read_run (example_app COMPLETED) ''r2'' =
     (Inl (HTTPException 404 (Run_not_found ''r2'')), example_app COMPLETED) \<and>
   resume_run (example_app COMPLETED) ''r2'' (example_resume SYNC) =
     (Inl (HTTPException 404 (Run_not_found ''r2'')), example_app COMPLETED) \<and>
   cancel_run (example_app COMPLETED) ''r2'' =
     (Inl (HTTPException 404 (Run_not_found ''r2'')), example_app COMPLETED) \<and>
   agents (example_app COMPLETED) (req_agent_name unknown_create) = None \<and>
   create_run (example_app COMPLETED) unknown_create ''r2'' =
     (Inl (HTTPException 404 (Agent_not_found ''nobody'')), example_app COMPLETED)"
proof -
  have r: "runs (example_app COMPLETED) ''r2'' = None"
    by (simp add: example_app_def)
  have a: "agents (example_app COMPLETED) (req_agent_name unknown_create) = None"
    by (simp add: example_app_def unknown_create_def)
  have n: "req_agent_name unknown_create = ''nobody''"
    by (simp add: unknown_create_def)
  from r a n
    not_found_surfaced [of "example_app COMPLETED" "''r2''" "example_resume SYNC"
      unknown_create "''r2''"]
  show ?thesis by simp
qed

section \<open>A failed create leaves no trace\<close>

text \<open>
  C10. A \<^verbatim>\<open>create_run\<close> request that names an unknown agent fails before any run state
  exists: the result is the 404 error and the state after the call is the state before
  it, so no bundle was registered (the registry is the same mapping, also at the
  identifier the run would have had) and no coroutine was scheduled.
\<close>

theorem create_run_unknown_agent_atomic:
  assumes "agents s (req_agent_name request) = None"
  shows "fst (create_run s request new_id) =
           Inl (HTTPException 404 (Agent_not_found (req_agent_name request))) \<and>
         snd (create_run s request new_id) = s \<and>
         runs (snd (create_run s request new_id)) = runs s \<and>
         runs (snd (create_run s request new_id)) new_id = runs s new_id \<and>
         scheduled (snd (create_run s request new_id)) = scheduled s"
  using assms by (simp add: create_run_def find_agent_def)

theorem create_run_unknown_agent_atomic_witness:
  "agents (example_app IN_PROGRESS) (req_agent_name unknown_create) = None \<and>
   fst (create_run (example_app IN_PROGRESS) unknown_create ''r2'') =
     Inl (HTTPException 404 (Agent_not_found ''nobody'')) \<and>
   snd (create_run (example_app IN_PROGRESS) unknown_create ''r2'') = example_app IN_PROGRESS \<and>
   runs (snd (create_run (example_app IN_PROGRESS) unknown_create ''r2'')) ''r2'' = None \<and>
   scheduled (snd (create_run (example_app IN_PROGRESS) unknown_create ''r2'')) = [''r1'']"
proof -
  have a: "agents (example_app IN_PROGRESS) (req_agent_name unknown_create) = None"
    by (simp add: example_app_def unknown_create_def)
  have n: "req_agent_name unknown_create = ''nobody''"
    by (simp add: unknown_create_def)
  have r: "runs (example_app IN_PROGRESS) ''r2'' = None"
    "scheduled (example_app IN_PROGRESS) = [''r1'']"
    by (simp_all add: example_app_def)
  from create_run_unknown_agent_atomic [OF a, of "''r2''"] a n r
  show ?thesis by simp
qed

section \<open>Cancellation\<close>

text \<open>
  C2. For a registered run whose status is terminal (Completed, Failed or Cancelled),
  \<^verbatim>\<open>cancel_run\<close> rejects the request with status 403 (Forbidden) and the state, the run
  included, is unchanged. For a registered run whose status is not terminal it asks the
  task to stop (\<^verbatim>\<open>bundle.task.cancel()\<close>: unless the task is done already, the task
  counts one more cancellation request and either its pending wait is cancelled or it
  is marked to be cancelled at its next step), sets the status to Cancelling and
  answers with the snapshot of the run in that status.
\<close>

theorem cancel_run_terminal_or_cancelling:
  assumes "runs s rid = Some b"
  shows "(is_terminal (status (run b)) \<longrightarrow>
            cancel_run s rid = (Inl (HTTPException 403 (Run_terminal (status (run b)))), s)) \<and>
         (\<not> is_terminal (status (run b)) \<longrightarrow>
            cancel_run s rid =
              (Inr (Done (JSONResponse 202 ((run b)\<lparr>status := CANCELLING\<rparr>))),
               s\<lparr>runs := (runs s)(rid \<mapsto>
                    b\<lparr>task := cancel (task b),
                      run := (run b)\<lparr>status := CANCELLING\<rparr>\<rparr>)\<rparr>) \<and>
            task_input (cancel (task b)) = task_input (task b) \<and>
            (\<not> task_done (task b) \<longrightarrow>
               num_cancels_requested (cancel (task b)) =
                 Suc (num_cancels_requested (task b)) \<and>
               (if fut_waiter (task b) = Some PENDING
                then fut_waiter (cancel (task b)) = Some FUT_CANCELLED
                else must_cancel (cancel (task b)))))"
  using assms
  by (auto simp: cancel_run_def find_run_bundle_def cancel_def Let_def
      split: option.split fut_state.split)

theorem cancel_run_terminal_or_cancelling_witness:
  "runs (example_app FAILED) ''r1'' = Some (example_bundle FAILED) \<and>
   is_terminal (status (run (example_bundle FAILED))) \<and>
   cancel_run (example_app FAILED) ''r1'' =
     (Inl (HTTPException 403 (Run_terminal FAILED)), example_app FAILED) \<and>
   runs (example_app AWAITING) ''r1'' = Some (example_bundle AWAITING) \<and>
   \<not> is_terminal (status (run (example_bundle AWAITING))) \<and>
   \<not> task_done (task (example_bundle AWAITING)) \<and>
   cancel_run (example_app AWAITING) ''r1'' =
     (Inr (Done (JSONResponse 202 (example_run CANCELLING))),
      (example_app AWAITING)\<lparr>runs := [''r1'' \<mapsto>
         (example_bundle CANCELLING)\<lparr>task :=
            \<lparr>task_input = [''hi''], task_done = False, num_cancels_requested = 1,
             fut_waiter = None, must_cancel = True\<rparr>\<rparr>]\<rparr>) \<and>
   num_cancels_requested (cancel (task (example_bundle AWAITING))) = 1 \<and>
   must_cancel (cancel (task (example_bundle AWAITING)))"
proof -
  have f: "runs (example_app FAILED) ''r1'' = Some (example_bundle FAILED)"
    and a: "runs (example_app AWAITING) ''r1'' = Some (example_bundle AWAITING)"
    by (simp_all add: example_app_def)
  have tf: "is_terminal (status (run (example_bundle FAILED)))"
    and ta: "\<not> is_terminal (status (run (example_bundle AWAITING)))"
    by (simp_all add: example_bundle_def example_run_def is_terminal_def)
  have d: "\<not> task_done (task (example_bundle AWAITING))"
    "fut_waiter (task (example_bundle AWAITING)) \<noteq> Some PENDING"
    "num_cancels_requested (task (example_bundle AWAITING)) = 0"
    by (simp_all add: example_bundle_def create_task_def)
  have c: "cancel (task (example_bundle AWAITING)) =
      \<lparr>task_input = [''hi''], task_done = False, num_cancels_requested = 1,
       fut_waiter = None, must_cancel = True\<rparr>"
    by (simp add: example_bundle_def create_task_def cancel_def)
  from cancel_run_terminal_or_cancelling [OF f] tf
  have 1: "cancel_run (example_app FAILED) ''r1'' =
      (Inl (HTTPException 403 (Run_terminal FAILED)), example_app FAILED)"
    by (simp add: example_bundle_def example_run_def)
  from cancel_run_terminal_or_cancelling [OF a] ta d
  have 2: "cancel_run (example_app AWAITING) ''r1'' =
      (Inr (Done (JSONResponse 202 ((run (example_bundle AWAITING))\<lparr>status := CANCELLING\<rparr>))),
       (example_app AWAITING)\<lparr>runs := (runs (example_app AWAITING))(''r1'' \<mapsto>
          (example_bundle AWAITING)\<lparr>task := cancel (task (example_bundle AWAITING)),
            run := (run (example_bundle AWAITING))\<lparr>status := CANCELLING\<rparr>\<rparr>)\<rparr>)"
    and 3: "num_cancels_requested (cancel (task (example_bundle AWAITING))) = 1"
      "must_cancel (cancel (task (example_bundle AWAITING)))"
    by simp_all
  have 4: "cancel_run (example_app AWAITING) ''r1'' =
     (Inr (Done (JSONResponse 202 (example_run CANCELLING))),
      (example_app AWAITING)\<lparr>runs := [''r1'' \<mapsto>
         (example_bundle CANCELLING)\<lparr>task :=
            \<lparr>task_input = [''hi''], task_done = False, num_cancels_requested = 1,
             fut_waiter = None, must_cancel = True\<rparr>\<rparr>]\<rparr>)"
    unfolding 2 c by (simp add: example_app_def example_bundle_def example_run_def)
  from f a tf ta d 1 3 4 show ?thesis by simp
qed

text \<open>What \<^verbatim>\<open>Task.cancel()\<close> does when it is called again.\<close>

lemma cancel_task_done [simp]: "task_done (cancel t) = task_done t"
  by (simp add: cancel_def Let_def split: option.split fut_state.split)

lemma cancel_counts:
  "\<not> task_done t \<Longrightarrow> num_cancels_requested (cancel t) = Suc (num_cancels_requested t)"
  by (simp add: cancel_def Let_def split: option.split fut_state.split)

lemma cancel_when_done: "task_done t \<Longrightarrow> cancel t = t"
  by (simp add: cancel_def)

text \<open>
  C8, as stated, fails: \<^verbatim>\<open>cancel_run\<close> is not idempotent on a run that is Cancelling. The
  run below is InProgress; a first \<^verbatim>\<open>cancel_run\<close> makes it Cancelling, with one
  cancellation request on its task. From there, one further \<^verbatim>\<open>cancel_run\<close> and two
  further ones all get the same 202 answer, but they do not leave the same state: each
  call reaches \<^verbatim>\<open>bundle.task.cancel()\<close> again and the task holds one more cancellation
  request every time, two distinct cancellations where the claim has one. (The
  Cancelling state is reachable: \<open>steps_to_cancelling\<close> below.)
\<close>

theorem cancel_run_twice_requests_twice:
  "cancel_run (example_app IN_PROGRESS) ''r1'' =
     (Inr (Done (JSONResponse 202 (example_run CANCELLING))), cancelling_app 1) \<and>
   status (run (cancelling_bundle 1)) = CANCELLING \<and>
   cancel_run (cancelling_app 1) ''r1'' =
     (Inr (Done (JSONResponse 202 (example_run CANCELLING))), cancelling_app 2) \<and>
   cancel_run (cancelling_app 2) ''r1'' =
     (Inr (Done (JSONResponse 202 (example_run CANCELLING))), cancelling_app 3) \<and>
   cancelling_app 3 \<noteq> cancelling_app 2 \<and>
   num_cancels_requested (task (cancelling_bundle 2)) = 2 \<and>
   num_cancels_requested (task (cancelling_bundle 3)) = 3"
proof -
  have ne: "cancelling_app 3 \<noteq> cancelling_app 2"
  proof
    assume "cancelling_app 3 = cancelling_app 2"
    then have "runs (cancelling_app 3) ''r1'' = runs (cancelling_app 2) ''r1''"
      by simp
    then show False
      by (simp add: cancelling_app_def cancelling_bundle_def)
  qed
  have "cancel_run (example_app IN_PROGRESS) ''r1'' =
     (Inr (Done (JSONResponse 202 (example_run CANCELLING))), cancelling_app 1)"
    by (simp add: cancel_run_def find_run_bundle_def is_terminal_def cancel_def
        create_task_def example_app_def example_bundle_def example_run_def
        cancelling_app_def cancelling_bundle_def)
  moreover have "cancel_run (cancelling_app n) ''r1'' =
     (Inr (Done (JSONResponse 202 (example_run CANCELLING))), cancelling_app (Suc n))" for n
    by (simp add: cancel_run_def find_run_bundle_def is_terminal_def cancel_def
        example_run_def cancelling_app_def cancelling_bundle_def)
  from this [of 1] this [of 2] have
    "cancel_run (cancelling_app 1) ''r1'' =
       (Inr (Done (JSONResponse 202 (example_run CANCELLING))), cancelling_app 2)"
    "cancel_run (cancelling_app 2) ''r1'' =
       (Inr (Done (JSONResponse 202 (example_run CANCELLING))), cancelling_app 3)"
    by (simp_all add: numeral_2_eq_2 numeral_3_eq_3)
  moreover have "status (run (cancelling_bundle 1)) = CANCELLING"
    "num_cancels_requested (task (cancelling_bundle 2)) = 2"
    "num_cancels_requested (task (cancelling_bundle 3)) = 3"
    by (simp_all add: cancelling_bundle_def example_run_def)
  ultimately show ?thesis using ne by simp
qed

text \<open>
  C8, amended. A \<^verbatim>\<open>cancel_run\<close> that follows another on a run that is not terminal is
  accepted like the first, with the same 202 answer, and it leaves the run (status
  Cancelling), the queues and the rest of the state as the first one left them; but it
  calls \<^verbatim>\<open>bundle.task.cancel()\<close> again. Unless the task is done, the task then holds
  two cancellation requests where it held one, and the state after the second request
  differs from the state after the first; on a task that is done the second request
  changes nothing.
\<close>

theorem cancel_run_again_requests_again:
  assumes "runs s rid = Some b" and "\<not> is_terminal (status (run b))"
  shows "fst (cancel_run s rid) =
           Inr (Done (JSONResponse 202 ((run b)\<lparr>status := CANCELLING\<rparr>))) \<and>
         cancel_run (snd (cancel_run s rid)) rid =
           (fst (cancel_run s rid),
            s\<lparr>runs := (runs s)(rid \<mapsto>
                 b\<lparr>task := cancel (cancel (task b)),
                   run := (run b)\<lparr>status := CANCELLING\<rparr>\<rparr>)\<rparr>) \<and>
         (\<not> task_done (task b) \<longrightarrow>
            num_cancels_requested (cancel (task b)) = Suc (num_cancels_requested (task b)) \<and>
            num_cancels_requested (cancel (cancel (task b))) =
              Suc (Suc (num_cancels_requested (task b))) \<and>
            snd (cancel_run (snd (cancel_run s rid)) rid) \<noteq> snd (cancel_run s rid)) \<and>
         (task_done (task b) \<longrightarrow>
            snd (cancel_run (snd (cancel_run s rid)) rid) = snd (cancel_run s rid))"
proof -
  let ?r = "(run b)\<lparr>status := CANCELLING\<rparr>"
  let ?b1 = "b\<lparr>task := cancel (task b), run := ?r\<rparr>"
  let ?b2 = "b\<lparr>task := cancel (cancel (task b)), run := ?r\<rparr>"
  let ?s1 = "s\<lparr>runs := (runs s)(rid \<mapsto> ?b1)\<rparr>"
  let ?s2 = "s\<lparr>runs := (runs s)(rid \<mapsto> ?b2)\<rparr>"
  have first: "cancel_run s rid = (Inr (Done (JSONResponse 202 ?r)), ?s1)"
    using assms by (simp add: cancel_run_def find_run_bundle_def)
  have second: "cancel_run ?s1 rid = (Inr (Done (JSONResponse 202 ?r)), ?s2)"
    by (simp add: cancel_run_def find_run_bundle_def is_terminal_def)
  have counts: "num_cancels_requested (cancel (task b)) = Suc (num_cancels_requested (task b))"
    "num_cancels_requested (cancel (cancel (task b))) =
       Suc (Suc (num_cancels_requested (task b)))"
    if "\<not> task_done (task b)"
    using that by (simp_all add: cancel_counts)
  have differ: "?s2 \<noteq> ?s1" if "\<not> task_done (task b)"
  proof
    assume "?s2 = ?s1"
    then have "runs ?s2 rid = runs ?s1 rid" by simp
    then have "?b2 = ?b1" by simp
    then have "task ?b2 = task ?b1" by (rule arg_cong)
    then have "cancel (cancel (task b)) = cancel (task b)" by simp
    then have "num_cancels_requested (cancel (cancel (task b))) =
        num_cancels_requested (cancel (task b))"
      by simp
    with counts [OF that] show False by simp
  qed
  have same: "?s2 = ?s1" if "task_done (task b)"
    using that by (simp add: cancel_when_done)
  from first second counts differ same show ?thesis by simp
qed

theorem cancel_run_again_requests_again_witness:
  "runs (cancelling_app 1) ''r1'' = Some (cancelling_bundle 1) \<and>
   \<not> is_terminal (status (run (cancelling_bundle 1))) \<and>
   \<not> task_done (task (cancelling_bundle 1)) \<and>
   fst (cancel_run (cancelling_app 1) ''r1'') =
     Inr (Done (JSONResponse 202 (example_run CANCELLING))) \<and>
   fst (cancel_run (snd (cancel_run (cancelling_app 1) ''r1'')) ''r1'') =
     Inr (Done (JSONResponse 202 (example_run CANCELLING))) \<and>
   num_cancels_requested (cancel (task (cancelling_bundle 1))) = 2 \<and>
   num_cancels_requested (cancel (cancel (task (cancelling_bundle 1)))) = 3 \<and>
   snd (cancel_run (snd (cancel_run (cancelling_app 1) ''r1'')) ''r1'') \<noteq>
     snd (cancel_run (cancelling_app 1) ''r1'')"
proof -
  have r: "runs (cancelling_app 1) ''r1'' = Some (cancelling_bundle 1)"
    by (simp add: cancelling_app_def)
  have t: "\<not> is_terminal (status (run (cancelling_bundle 1)))"
    by (simp add: cancelling_bundle_def example_run_def is_terminal_def)
  have d: "\<not> task_done (task (cancelling_bundle 1))"
    by (simp add: cancelling_bundle_def)
  have n: "num_cancels_requested (task (cancelling_bundle 1)) = 1"
    and e: "(run (cancelling_bundle 1))\<lparr>status := CANCELLING\<rparr> = example_run CANCELLING"
    by (simp_all add: cancelling_bundle_def example_run_def)
  note w = cancel_run_again_requests_again [OF r t]
  from w have 1: "fst (cancel_run (cancelling_app 1) ''r1'') =
      Inr (Done (JSONResponse 202 (example_run CANCELLING)))"
    unfolding e by blast
  from w have "\<exists>u. cancel_run (snd (cancel_run (cancelling_app 1) ''r1'')) ''r1'' =
      (fst (cancel_run (cancelling_app 1) ''r1''), u)"
    by blast
  then have "fst (cancel_run (snd (cancel_run (cancelling_app 1) ''r1'')) ''r1'') =
      fst (cancel_run (cancelling_app 1) ''r1'')"
    by auto
  with 1 have 2: "fst (cancel_run (snd (cancel_run (cancelling_app 1) ''r1'')) ''r1'') =
      Inr (Done (JSONResponse 202 (example_run CANCELLING)))"
    by simp
  from w d have "num_cancels_requested (cancel (task (cancelling_bundle 1))) =
      Suc (num_cancels_requested (task (cancelling_bundle 1)))"
    and "num_cancels_requested (cancel (cancel (task (cancelling_bundle 1)))) =
      Suc (Suc (num_cancels_requested (task (cancelling_bundle 1))))"
    and 5: "snd (cancel_run (snd (cancel_run (cancelling_app 1) ''r1'')) ''r1'') \<noteq>
      snd (cancel_run (cancelling_app 1) ''r1'')"
    by blast+
  with n have 3: "num_cancels_requested (cancel (task (cancelling_bundle 1))) = 2"
    and 4: "num_cancels_requested (cancel (cancel (task (cancelling_bundle 1)))) = 3"
    by simp_all
  from r t d 1 2 3 4 5 show ?thesis by blast
qed

section \<open>Resuming\<close>

text \<open>
  C1, as stated, fails: \<^verbatim>\<open>resume_run\<close> never reads the status of the run. A run that is
  InProgress, not Awaiting, is resumed without an error: the answer is the 202 snapshot
  and the payload is on the bundle's await queue. (The state is the one
  \<open>steps_to_in_progress\<close> below reaches from the empty application.)
\<close>

theorem resume_run_in_progress_accepted:
  "status (run (example_bundle IN_PROGRESS)) \<noteq> AWAITING \<and>
   runs (example_app IN_PROGRESS) ''r1'' = Some (example_bundle IN_PROGRESS) \<and>
   resume_run (example_app IN_PROGRESS) ''r1'' (example_resume ASYNC) =
     (Inr (Done (JSONResponse 202 (example_run IN_PROGRESS))),
      (example_app IN_PROGRESS)\<lparr>runs := [''r1'' \<mapsto>
         (example_bundle IN_PROGRESS)
           \<lparr>stream_queue := Queue_init 0,
            await_queue := \<lparr>maxsize = 1, items = [''ok''], is_shutdown = False\<rparr>\<rparr>]\<rparr>)"
  by (simp add: resume_run_def find_run_bundle_def put_def full_def Queue_init_def
      example_app_def example_bundle_def example_run_def example_resume_def)

text \<open>
  C1, amended. \<^verbatim>\<open>resume_run\<close> checks the registry and not the status. For a registered
  run whose status is not terminal, whether it is Awaiting or not, and whose await
  queue takes the payload at once, the request is accepted: the stream queue is replaced
  by a new one, the payload is appended to the await queue, the run (its status
  included) is left as it is, and the mode alone decides the answer. The only error
  \<^verbatim>\<open>resume_run\<close> raises by itself is the 404 of an unknown identifier.
\<close>

theorem resume_run_no_status_check:
  assumes "runs s rid = Some b"
    and "\<not> is_terminal (status (run b))"
    and "\<not> is_shutdown (await_queue b)" and "\<not> full (await_queue b)"
  shows "resume_run s rid request =
     (Inr (case resume_mode request of
             STREAM \<Rightarrow> Done (StreamingResponse rid)
           | SYNC \<Rightarrow> Suspended (Join rid)
           | ASYNC \<Rightarrow> Done (JSONResponse 202 (run b))),
      s\<lparr>runs := (runs s)(rid \<mapsto>
           b\<lparr>stream_queue := Queue_init 0,
             await_queue := (await_queue b)
               \<lparr>items := items (await_queue b) @ [await_resume request]\<rparr>\<rparr>)\<rparr>)"
  using assms
  by (simp add: resume_run_def find_run_bundle_def put_def split: RunMode.split)

theorem resume_run_no_status_check_witness:
  "runs (example_app CREATED) ''r1'' = Some (example_bundle CREATED) \<and>
   \<not> is_terminal (status (run (example_bundle CREATED))) \<and>
   \<not> is_shutdown (await_queue (example_bundle CREATED)) \<and>
   \<not> full (await_queue (example_bundle CREATED)) \<and>
   resume_run (example_app CREATED) ''r1'' (example_resume SYNC) =
     (Inr (Suspended (Join ''r1'')),
      (example_app CREATED)\<lparr>runs := [''r1'' \<mapsto>
         (example_bundle CREATED)
           \<lparr>stream_queue := Queue_init 0,
            await_queue := \<lparr>maxsize = 1, items = [''ok''], is_shutdown = False\<rparr>\<rparr>]\<rparr>)"
proof -
  have r: "runs (example_app CREATED) ''r1'' = Some (example_bundle CREATED)"
    by (simp add: example_app_def)
  have t: "\<not> is_terminal (status (run (example_bundle CREATED)))"
    by (simp add: example_bundle_def example_run_def is_terminal_def)
  have o: "\<not> is_shutdown (await_queue (example_bundle CREATED))"
    and f: "\<not> full (await_queue (example_bundle CREATED))"
    by (simp_all add: example_bundle_def Queue_init_def full_def)
  from resume_run_no_status_check [OF r t o f, of "example_resume SYNC"] r t o f
  show ?thesis
    by (simp add: example_resume_def example_app_def example_bundle_def Queue_init_def)
qed

section \<open>Delivery of events to a reader attached by a resume\<close>

text \<open>
  C4, as stated, fails: a consumer that subscribes before termination does not always
  observe every emitted event. The run below was created in async mode; its handler has
  emitted a message and an Await, both still queued for delivery since nobody has read
  the stream, and the run is Awaiting (\<open>steps_to_awaiting\<close> below reaches this state
  from the empty application). The streaming resume answers with a stream over the same
  bundle, but the bundle's stream queue is now a new, empty one: neither of the two
  emitted events is there for the reader, although both are part of the run's
  accumulated output.
\<close>

theorem resume_run_drops_queued_events:
  "runs awaiting_app ''r1'' = Some awaiting_bundle \<and>
   status (run awaiting_bundle) = AWAITING \<and>
   outputs (run awaiting_bundle) = [MessageEvent ''hi'', AwaitEvent] \<and>
   items (stream_queue awaiting_bundle) = [MessageEvent ''hi'', AwaitEvent] \<and>
   resume_run awaiting_app ''r1'' (example_resume STREAM) =
     (Inr (Done (StreamingResponse ''r1'')),
      awaiting_app\<lparr>runs := [''r1'' \<mapsto> awaiting_bundle
        \<lparr>stream_queue := \<lparr>maxsize = 0, items = [], is_shutdown = False\<rparr>,
         await_queue := \<lparr>maxsize = 1, items = [''ok''], is_shutdown = False\<rparr>\<rparr>]\<rparr>)"
  by (simp add: resume_run_def find_run_bundle_def put_def full_def Queue_init_def
      awaiting_app_def awaiting_bundle_def example_resume_def)

text \<open>
  C4, amended. A consumer attached by a resume is not given the events emitted before
  the resume: for every registered run, whatever its stream queue held, after
  \<^verbatim>\<open>resume_run\<close> the bundle's stream queue is a new queue with no item in it, so its
  reader starts with nothing to read and can only be handed events put there later.
  The events emitted so far are not lost to the run: its accumulated output, like
  every field of the run, is unchanged by \<^verbatim>\<open>resume_run\<close>.
\<close>

theorem resume_run_fresh_stream_queue:
  assumes "runs s rid = Some b"
  shows "\<exists>b'. runs (snd (resume_run s rid request)) rid = Some b' \<and>
           stream_queue b' = Queue_init 0 \<and>
           items (stream_queue b') = [] \<and>
           run b' = run b"
  using assms
  by (cases "put (await_queue b) (await_resume request)"; cases "resume_mode request")
    (simp_all add: resume_run_def find_run_bundle_def Queue_init_def)

theorem resume_run_fresh_stream_queue_witness:
  "runs (example_app AWAITING) ''r1'' = Some (example_bundle AWAITING) \<and>
   stream_queue (the (runs (snd (resume_run (example_app AWAITING) ''r1''
       (example_resume STREAM))) ''r1'')) = Queue_init 0 \<and>
   items (stream_queue (the (runs (snd (resume_run (example_app AWAITING) ''r1''
       (example_resume STREAM))) ''r1''))) = [] \<and>
   run (the (runs (snd (resume_run (example_app AWAITING) ''r1''
       (example_resume STREAM))) ''r1'')) = example_run AWAITING"
proof -
  have r: "runs (example_app AWAITING) ''r1'' = Some (example_bundle AWAITING)"
    by (simp add: example_app_def)
  have e: "run (example_bundle AWAITING) = example_run AWAITING"
    by (simp add: example_bundle_def)
  from resume_run_fresh_stream_queue [OF r, of "example_resume STREAM"] r e
  show ?thesis by auto
qed

section \<open>Invariants of the transition system\<close>

text \<open>What one step of the execution unit does to the stream and to the run.\<close>

lemma execute_closes_stream:
  assumes "execute b b'" and "\<not> is_shutdown (stream_queue b)"
  shows "is_shutdown (stream_queue b') \<longleftrightarrow>
         is_terminal (status (run b')) \<or> status (run b') = AWAITING"
  using assms
  by (cases rule: execute.cases)
    (auto simp: set_status_def emit_def close_stream_def shutdown_def is_terminal_def)

lemma execute_run:
  assumes "execute b b'"
  shows "status_rank (status (run b)) \<le> status_rank (status (run b'))"
    and "\<not> is_terminal (status (run b))"
    and "run_id (run b') = run_id (run b)"
  using assms
  by (cases rule: execute.cases;
      auto simp: set_status_def emit_def close_stream_def shutdown_def is_terminal_def)+

lemma status_rank_not_terminal:
  "\<not> is_terminal st \<Longrightarrow> status_rank st \<le> Suc 0"
  by (cases st) (simp_all add: is_terminal_def)

text \<open>
  The core of the invariants: a step keeps every registered bundle registered, never
  lowers the rank of its status, and leaves the run of a terminal bundle untouched.
\<close>

lemma step_run:
  assumes "step s t" and "runs s rid = Some b"
  shows "\<exists>b'. runs t rid = Some b' \<and>
           status_rank (status (run b)) \<le> status_rank (status (run b')) \<and>
           (is_terminal (status (run b)) \<longrightarrow> run b' = run b)"
  using assms
proof (cases rule: step.cases)
  case (create new_id request)
  then have "rid \<noteq> new_id" using assms(2) by auto
  with create assms(2) show ?thesis
    by (cases "mode request")
      (auto simp: create_run_def find_agent_def RunBundle_init_def Run_init_def
        split: option.split)
next
  case (read rid')
  with assms(2) show ?thesis
    by (auto simp: read_run_def find_run_bundle_def split: option.split)
next
  case (resume rid' request)
  with assms(2) show ?thesis
    by (cases "put (await_queue (the (runs s rid'))) (await_resume request)";
        cases "resume_mode request")
      (auto simp: resume_run_def find_run_bundle_def Let_def split: option.split)
next
  case (resume_put rid' b0 p q)
  with assms(2) show ?thesis by auto
next
  case (cancelling rid')
  with assms(2) show ?thesis
    by (auto simp: cancel_run_def find_run_bundle_def status_rank_not_terminal
        split: option.split)
next
  case (handler rid' b0 b1)
  with assms(2) execute_run [of b0 b1] show ?thesis by auto
next
  case (streamed rid' b0 e es)
  with assms(2) show ?thesis by auto
qed

lemma steps_run:
  assumes "steps s t" and "runs s rid = Some b"
  shows "\<exists>b'. runs t rid = Some b' \<and>
           status_rank (status (run b)) \<le> status_rank (status (run b')) \<and>
           (is_terminal (status (run b)) \<longrightarrow> run b' = run b)"
  using assms
proof (induction rule: steps.induct)
  case (no_step s)
  then show ?case by simp
next
  case (more s t u)
  from more.IH [OF more.prems] obtain b1 where b1: "runs t rid = Some b1"
    "status_rank (status (run b)) \<le> status_rank (status (run b1))"
    "is_terminal (status (run b)) \<longrightarrow> run b1 = run b"
    by blast
  from step_run [OF more.hyps(2) b1(1)] obtain b2 where b2: "runs u rid = Some b2"
    "status_rank (status (run b1)) \<le> status_rank (status (run b2))"
    "is_terminal (status (run b1)) \<longrightarrow> run b2 = run b1"
    by blast
  from b1 b2 show ?case by auto
qed

text \<open>Two runs of the transition system over the example states.\<close>

lemma steps_cancel_and_stop: "steps (example_app AWAITING) after_cancel_and_stop"
proof -
  let ?s1 = "snd (cancel_run (example_app AWAITING) ''r1'')"
  let ?b1 = "(example_bundle CANCELLING)\<lparr>task := cancel (create_task [''hi''])\<rparr>"
  have s1: "?s1 = (example_app AWAITING)\<lparr>runs := [''r1'' \<mapsto> ?b1]\<rparr>"
    by (simp add: cancel_run_def find_run_bundle_def is_terminal_def
        example_app_def example_bundle_def example_run_def)
  have "steps (example_app AWAITING) ?s1"
    by (rule steps.more [OF steps.no_step step.cancelling])
  moreover have "step ?s1 (?s1\<lparr>runs := (runs ?s1)(''r1'' \<mapsto>
      close_stream (set_status ?b1 CANCELLED))\<rparr>)"
  proof (rule step.handler)
    show "runs ?s1 ''r1'' = Some ?b1" by (simp add: s1)
    show "execute ?b1 (close_stream (set_status ?b1 CANCELLED))"
      by (rule execute.stopped) (simp add: example_bundle_def example_run_def)
  qed
  moreover have "?s1\<lparr>runs := (runs ?s1)(''r1'' \<mapsto>
      close_stream (set_status ?b1 CANCELLED))\<rparr> = after_cancel_and_stop"
    by (simp add: s1 after_cancel_and_stop_def)
  ultimately show ?thesis by (auto intro: steps.more)
qed

lemma steps_resume_of_completed:
  "steps (example_app COMPLETED) after_resume_of_completed"
proof -
  let ?s1 = "snd (cancel_run (example_app COMPLETED) ''r1'')"
  let ?s2 = "snd (create_run ?s1 (example_create ASYNC) ''r2'')"
  have s1: "?s1 = example_app COMPLETED"
    by (simp add: cancel_run_def find_run_bundle_def is_terminal_def
        example_app_def example_bundle_def example_run_def)
  have "steps (example_app COMPLETED) ?s1"
    by (rule steps.more [OF steps.no_step step.cancelling])
  moreover have "step ?s1 ?s2"
    unfolding s1 by (rule step.create) (simp add: example_app_def)
  moreover have "step ?s2 (snd (resume_run ?s2 ''r1'' (example_resume ASYNC)))"
    by (rule step.resume)
  ultimately show ?thesis
    unfolding after_resume_of_completed_def by (blast intro: steps.more)
qed

text \<open>
  The states of the two counterexamples are reachable: the run is created in async mode,
  its execution unit starts, the handler emits a message, and then yields an Await.
\<close>

lemma steps_to_in_progress: "steps empty_app (example_app IN_PROGRESS)"
proof -
  let ?b0 = "RunBundle_init echo_agent (Run_init ''r1'' ''echo'' None) (create_task [''hi''])"
  let ?s0 = "empty_app\<lparr>scheduled := [''r1''], runs := [''r1'' \<mapsto> ?b0]\<rparr>"
  let ?b1 = "set_status ?b0 IN_PROGRESS"
  let ?s1 = "?s0\<lparr>runs := (runs ?s0)(''r1'' \<mapsto> ?b1)\<rparr>"
  let ?b2 = "emit ?b1 (MessageEvent ''hi'')"
  let ?s2 = "?s1\<lparr>runs := (runs ?s1)(''r1'' \<mapsto> ?b2)\<rparr>"
  have c: "snd (create_run empty_app hi_create ''r1'') = ?s0"
    by (simp add: create_run_def find_agent_def empty_app_def hi_create_def
        echo_agent_def RunBundle_init_def Run_init_def)
  have "step empty_app (snd (create_run empty_app hi_create ''r1''))"
    by (rule step.create) (simp add: empty_app_def)
  then have 0: "step empty_app ?s0" by (simp only: c)
  have 1: "step ?s0 ?s1"
    by (rule step.handler [where b = ?b0], simp, rule execute.started)
      (simp add: RunBundle_init_def Run_init_def)
  have 2: "step ?s1 ?s2"
    by (rule step.handler [where b = ?b1], simp, rule execute.emitted)
      (simp_all add: RunBundle_init_def Run_init_def set_status_def)
  have e: "?s2 = example_app IN_PROGRESS"
    by (simp add: example_app_def example_bundle_def example_run_def empty_app_def
        RunBundle_init_def Run_init_def set_status_def emit_def Queue_init_def)
  from 0 1 2 have "steps empty_app ?s2"
    by (blast intro: steps.intros)
  then show ?thesis by (simp only: e)
qed

lemma steps_to_awaiting: "steps empty_app awaiting_app"
proof -
  let ?b = "example_bundle IN_PROGRESS"
  let ?s = "example_app IN_PROGRESS"
  have "step ?s (?s\<lparr>runs := (runs ?s)(''r1'' \<mapsto>
      close_stream (set_status (emit ?b AwaitEvent) AWAITING))\<rparr>)"
    by (rule step.handler [where b = ?b], simp add: example_app_def, rule execute.awaited)
      (simp add: example_bundle_def example_run_def)
  moreover have "?s\<lparr>runs := (runs ?s)(''r1'' \<mapsto>
      close_stream (set_status (emit ?b AwaitEvent) AWAITING))\<rparr> = awaiting_app"
    by (simp add: example_app_def example_bundle_def example_run_def awaiting_app_def
        awaiting_bundle_def close_stream_def set_status_def emit_def shutdown_def)
  ultimately have "step ?s awaiting_app" by simp
  with steps_to_in_progress show ?thesis by (rule steps.more)
qed

lemma steps_to_cancelling: "steps empty_app (cancelling_app 1)"
proof -
  have "snd (cancel_run (example_app IN_PROGRESS) ''r1'') = cancelling_app 1"
    by (simp add: cancel_run_def find_run_bundle_def is_terminal_def cancel_def
        create_task_def example_app_def example_bundle_def example_run_def
        cancelling_app_def cancelling_bundle_def)
  moreover have "step (example_app IN_PROGRESS)
      (snd (cancel_run (example_app IN_PROGRESS) ''r1''))"
    by (rule step.cancelling)
  ultimately have "step (example_app IN_PROGRESS) (cancelling_app 1)" by simp
  with steps_to_in_progress show ?thesis by (rule steps.more)
qed

lemma steps_to_completed: "steps empty_app completed_app"
proof -
  let ?b = "example_bundle IN_PROGRESS"
  let ?s = "example_app IN_PROGRESS"
  have "step ?s (?s\<lparr>runs := (runs ?s)(''r1'' \<mapsto>
      close_stream (set_status ?b COMPLETED))\<rparr>)"
    by (rule step.handler [where b = ?b], simp add: example_app_def, rule execute.completed)
      (simp add: example_bundle_def example_run_def)
  moreover have "?s\<lparr>runs := (runs ?s)(''r1'' \<mapsto>
      close_stream (set_status ?b COMPLETED))\<rparr> = completed_app"
    by (simp add: example_app_def example_bundle_def example_run_def completed_app_def
        completed_bundle_def close_stream_def set_status_def shutdown_def)
  ultimately have "step ?s completed_app" by simp
  with steps_to_in_progress show ?thesis by (rule steps.more)
qed

text \<open>
  In the model of the execution unit nothing closes the stream queue of a run that is
  already terminal: the unit has no step left, and no route shuts a queue down.
\<close>

lemma step_terminal_stream_open:
  assumes "step s t" and "runs s rid = Some b"
    and "is_terminal (status (run b))" and "\<not> is_shutdown (stream_queue b)"
  shows "\<exists>b'. runs t rid = Some b' \<and> is_terminal (status (run b')) \<and>
           \<not> is_shutdown (stream_queue b')"
  using assms(1)
proof (cases rule: step.cases)
  case (create new_id request)
  then have "rid \<noteq> new_id" using assms(2) by auto
  with create assms(2-4) show ?thesis
    by (cases "mode request")
      (auto simp: create_run_def find_agent_def RunBundle_init_def Run_init_def
        split: option.split)
next
  case (read rid')
  with assms(2-4) show ?thesis
    by (auto simp: read_run_def find_run_bundle_def split: option.split)
next
  case (resume rid' request)
  with assms(2-4) show ?thesis
    by (cases "put (await_queue (the (runs s rid'))) (await_resume request)";
        cases "resume_mode request")
      (auto simp: resume_run_def find_run_bundle_def Queue_init_def split: option.split)
next
  case (resume_put rid' b0 p q)
  with assms(2-4) show ?thesis by auto
next
  case (cancelling rid')
  with assms(2-4) show ?thesis
    by (auto simp: cancel_run_def find_run_bundle_def split: option.split)
next
  case (handler rid' b0 b1)
  with assms(2-4) execute_run(2) [of b0 b1] show ?thesis by auto
next
  case (streamed rid' b0 e es)
  with assms(2-4) show ?thesis by auto
qed

lemma terminal_stream_never_closes:
  assumes "steps s t" and "runs s rid = Some b"
    and "is_terminal (status (run b))" and "\<not> is_shutdown (stream_queue b)"
  shows "\<exists>b'. runs t rid = Some b' \<and> is_terminal (status (run b')) \<and>
           \<not> is_shutdown (stream_queue b')"
  using assms
proof (induction arbitrary: b rule: steps.induct)
  case (no_step s)
  then show ?case by simp
next
  case (more s t u)
  from more.IH [OF more.prems] obtain b1 where "runs t rid = Some b1"
    "is_terminal (status (run b1))" "\<not> is_shutdown (stream_queue b1)"
    by blast
  then show ?case by (rule step_terminal_stream_open [OF more.hyps(2)])
qed

text \<open>
  C3. Along every execution of the server (route calls, among them \<^verbatim>\<open>resume_run\<close> and
  \<^verbatim>\<open>cancel_run\<close>, and steps of the execution units), the status of every run moves
  monotonically in the ordering Created, then InProgress and Awaiting (with Cancelling
  as their sub-state), then Completed, Failed and Cancelled: its rank never decreases.
  Once the status is terminal it never changes again, so no operation takes a run from
  a terminal status to a non-terminal one.
\<close>

theorem status_monotonic:
  assumes "steps s s'" and "runs s rid = Some b"
  shows "\<exists>b'. runs s' rid = Some b' \<and>
           status_rank (status (run b)) \<le> status_rank (status (run b')) \<and>
           (is_terminal (status (run b)) \<longrightarrow> status (run b') = status (run b))"
proof -
  from steps_run [OF assms] obtain b' where "runs s' rid = Some b'"
    and "status_rank (status (run b)) \<le> status_rank (status (run b'))"
    and "is_terminal (status (run b)) \<longrightarrow> run b' = run b"
    by blast
  then show ?thesis by auto
qed

theorem status_monotonic_witness:
  "steps (example_app AWAITING) after_cancel_and_stop \<and>
   runs (example_app AWAITING) ''r1'' = Some (example_bundle AWAITING) \<and>
   status (run (the (runs after_cancel_and_stop ''r1''))) = CANCELLED \<and>
   status_rank (status (run (example_bundle AWAITING))) \<le>
     status_rank (status (run (the (runs after_cancel_and_stop ''r1'')))) \<and>
   steps (example_app COMPLETED) after_resume_of_completed \<and>
   runs (example_app COMPLETED) ''r1'' = Some (example_bundle COMPLETED) \<and>
   is_terminal (status (run (example_bundle COMPLETED))) \<and>
   status (run (the (runs after_resume_of_completed ''r1''))) = COMPLETED"
proof -
  have a: "runs (example_app AWAITING) ''r1'' = Some (example_bundle AWAITING)"
    and c: "runs (example_app COMPLETED) ''r1'' = Some (example_bundle COMPLETED)"
    by (simp_all add: example_app_def)
  have t: "is_terminal (status (run (example_bundle COMPLETED)))"
    and st: "status (run (example_bundle COMPLETED)) = COMPLETED"
    by (simp_all add: is_terminal_def example_bundle_def example_run_def)
  have x: "status (run (the (runs after_cancel_and_stop ''r1''))) = CANCELLED"
    by (simp add: after_cancel_and_stop_def close_stream_def set_status_def)
  from status_monotonic [OF steps_cancel_and_stop a]
    status_monotonic [OF steps_resume_of_completed c]
    steps_cancel_and_stop steps_resume_of_completed a c t st x
  show ?thesis by auto
qed

text \<open>
  C9. The registry never loses a bundle: along every execution the set of registered
  identifiers only grows. For a run that has reached a terminal status, every later
  \<^verbatim>\<open>read_run\<close> with its identifier succeeds and returns the same snapshot, field by
  field (status, output and terminal error among them).
\<close>

theorem terminal_snapshot_stable:
  assumes "steps s s'" and "runs s rid = Some b" and "is_terminal (status (run b))"
  shows "read_run s' rid = (Inr (Done (RunResponse (run b))), s') \<and>
         dom (runs s) \<subseteq> dom (runs s')"
proof -
  from steps_run [OF assms(1,2)] assms(3) obtain b' where
    "runs s' rid = Some b'" and "run b' = run b"
    by blast
  then have "read_run s' rid = (Inr (Done (RunResponse (run b))), s')"
    by (simp add: read_run_def find_run_bundle_def)
  moreover have "dom (runs s) \<subseteq> dom (runs s')"
  proof
    fix k assume "k \<in> dom (runs s)"
    then obtain c where "runs s k = Some c" by blast
    from steps_run [OF assms(1) this] show "k \<in> dom (runs s')" by blast
  qed
  ultimately show ?thesis by simp
qed

theorem terminal_snapshot_stable_witness:
  "steps (example_app COMPLETED) after_resume_of_completed \<and>
   runs (example_app COMPLETED) ''r1'' = Some (example_bundle COMPLETED) \<and>
   is_terminal (status (run (example_bundle COMPLETED))) \<and>
   read_run after_resume_of_completed ''r1'' =
     (Inr (Done (RunResponse (example_run COMPLETED))), after_resume_of_completed) \<and>
   dom (runs (example_app COMPLETED)) \<subseteq> dom (runs after_resume_of_completed)"
proof -
  have c: "runs (example_app COMPLETED) ''r1'' = Some (example_bundle COMPLETED)"
    by (simp add: example_app_def)
  have t: "is_terminal (status (run (example_bundle COMPLETED)))"
    by (simp add: is_terminal_def example_bundle_def example_run_def)
  have r: "run (example_bundle COMPLETED) = example_run COMPLETED"
    by (simp add: example_bundle_def)
  from terminal_snapshot_stable [OF steps_resume_of_completed c t]
    steps_resume_of_completed c t r
  show ?thesis by simp
qed

section \<open>Streaming resume\<close>

text \<open>No route but \<^verbatim>\<open>resume_run\<close> writes a stream queue.\<close>

lemma read_cancel_keep_stream_open:
  assumes "stream_open t rid"
  shows "stream_open (snd (read_run t r)) rid" and "stream_open (snd (cancel_run t r)) rid"
  using assms
  by (auto simp: stream_open_def read_run_def cancel_run_def find_run_bundle_def
      split: option.splits)

text \<open>
  C5, as stated, fails, in two ways. First, the stream does not close exactly when the
  run reaches a terminal state: the run below is Completed and its stream has been
  closed, yet the streaming resume is accepted and answers with a stream over a queue
  that is open (and, by \<open>terminal_stream_never_closes\<close>, stays open in the model of the
  execution unit, which has no step left for this run). Second, the reader is not
  attached to the delivery channel the bundle had: on the InProgress run, a message
  is queued for delivery, and after the streaming resume the bundle's queue is another,
  empty one, so the stream does not continue the event sequence where it was. Both
  states are reachable (\<open>steps_to_completed\<close>, \<open>steps_to_in_progress\<close>).
\<close>

theorem resume_stream_replaces_channel:
  "is_terminal (status (run completed_bundle)) \<and>
   is_shutdown (stream_queue completed_bundle) \<and>
   resume_run completed_app ''r1'' (example_resume STREAM) =
     (Inr (Done (StreamingResponse ''r1'')),
      completed_app\<lparr>runs := [''r1'' \<mapsto> completed_bundle
        \<lparr>stream_queue := \<lparr>maxsize = 0, items = [], is_shutdown = False\<rparr>,
         await_queue := \<lparr>maxsize = 1, items = [''ok''], is_shutdown = False\<rparr>\<rparr>]\<rparr>) \<and>
   stream_open (snd (resume_run completed_app ''r1'' (example_resume STREAM))) ''r1'' \<and>
   status (run (example_bundle IN_PROGRESS)) = IN_PROGRESS \<and>
   items (stream_queue (example_bundle IN_PROGRESS)) = [MessageEvent ''hi''] \<and>
   resume_run (example_app IN_PROGRESS) ''r1'' (example_resume STREAM) =
     (Inr (Done (StreamingResponse ''r1'')),
      (example_app IN_PROGRESS)\<lparr>runs := [''r1'' \<mapsto> (example_bundle IN_PROGRESS)
        \<lparr>stream_queue := \<lparr>maxsize = 0, items = [], is_shutdown = False\<rparr>,
         await_queue := \<lparr>maxsize = 1, items = [''ok''], is_shutdown = False\<rparr>\<rparr>]\<rparr>)"
  by (simp add: resume_run_def find_run_bundle_def put_def full_def Queue_init_def
      stream_open_def is_terminal_def completed_app_def completed_bundle_def
      example_app_def example_bundle_def example_run_def example_resume_def)

text \<open>
  C5, amended. A resume request in stream mode on a registered run that is not terminal
  (and whose await queue takes the payload at once) creates no run: the answer is a
  stream over the bundle registered under the same identifier, the registry has the
  same keys, nothing is scheduled, and the bundle keeps its run, agent and task. The
  reader is not attached to the queue the bundle had but to a new one that replaces
  it, empty and open whatever the old one held: events still queued are dropped, and
  the client is handed only what is emitted after the resume. No other route closes
  the stream: \<^verbatim>\<open>read_run\<close> and \<^verbatim>\<open>cancel_run\<close> leave an open stream open. When the
  stream closes is left to the execution of the bundle.
\<close>

theorem resume_stream_new_queue_same_bundle:
  assumes "runs s rid = Some b" and "\<not> is_terminal (status (run b))"
    and "resume_mode request = STREAM"
    and "\<not> is_shutdown (await_queue b)" and "\<not> full (await_queue b)"
  shows "resume_run s rid request =
           (Inr (Done (StreamingResponse rid)),
            s\<lparr>runs := (runs s)(rid \<mapsto>
                 b\<lparr>stream_queue := \<lparr>maxsize = 0, items = [], is_shutdown = False\<rparr>,
                   await_queue := (await_queue b)
                     \<lparr>items := items (await_queue b) @ [await_resume request]\<rparr>\<rparr>)\<rparr>) \<and>
         dom (runs (snd (resume_run s rid request))) = dom (runs s) \<and>
         scheduled (snd (resume_run s rid request)) = scheduled s \<and>
         stream_open (snd (resume_run s rid request)) rid \<and>
         (\<forall>t r. stream_open t rid \<longrightarrow>
            stream_open (snd (read_run t r)) rid \<and>
            stream_open (snd (cancel_run t r)) rid)"
proof -
  let ?b' = "b\<lparr>stream_queue := \<lparr>maxsize = 0, items = [], is_shutdown = False\<rparr>,
               await_queue := (await_queue b)
                 \<lparr>items := items (await_queue b) @ [await_resume request]\<rparr>\<rparr>"
  have res: "resume_run s rid request =
      (Inr (Done (StreamingResponse rid)), s\<lparr>runs := (runs s)(rid \<mapsto> ?b')\<rparr>)"
    using assms by (simp add: resume_run_def find_run_bundle_def put_def Queue_init_def)
  have "dom (runs (snd (resume_run s rid request))) = dom (runs s)"
    using assms(1) by (auto simp: res)
  moreover have "stream_open (snd (resume_run s rid request)) rid"
    by (simp add: res stream_open_def)
  ultimately show ?thesis
    using res read_cancel_keep_stream_open by simp
qed

theorem resume_stream_new_queue_same_bundle_witness:
  "runs awaiting_app ''r1'' = Some awaiting_bundle \<and>
   \<not> is_terminal (status (run awaiting_bundle)) \<and>
   resume_mode (example_resume STREAM) = STREAM \<and>
   \<not> is_shutdown (await_queue awaiting_bundle) \<and>
   \<not> full (await_queue awaiting_bundle) \<and>
   resume_run awaiting_app ''r1'' (example_resume STREAM) =
     (Inr (Done (StreamingResponse ''r1'')),
      awaiting_app\<lparr>runs := [''r1'' \<mapsto> resumed_bundle]\<rparr>) \<and>
   items (stream_queue awaiting_bundle) = [MessageEvent ''hi'', AwaitEvent] \<and>
   items (stream_queue resumed_bundle) = [] \<and>
   run resumed_bundle = run awaiting_bundle \<and>
   dom (runs (snd (resume_run awaiting_app ''r1'' (example_resume STREAM)))) = {''r1''} \<and>
   scheduled (snd (resume_run awaiting_app ''r1'' (example_resume STREAM))) = [''r1''] \<and>
   stream_open (snd (resume_run awaiting_app ''r1'' (example_resume STREAM))) ''r1'' \<and>
   stream_open (snd (cancel_run
     (snd (resume_run awaiting_app ''r1'' (example_resume STREAM))) ''r1'')) ''r1''"
proof -
  have r: "runs awaiting_app ''r1'' = Some awaiting_bundle"
    by (simp add: awaiting_app_def)
  have t: "\<not> is_terminal (status (run awaiting_bundle))"
    by (simp add: awaiting_bundle_def is_terminal_def)
  have m: "resume_mode (example_resume STREAM) = STREAM"
    by (simp add: example_resume_def)
  have o: "\<not> is_shutdown (await_queue awaiting_bundle)"
    and f: "\<not> full (await_queue awaiting_bundle)"
    by (simp_all add: awaiting_bundle_def Queue_init_def full_def)
  have i: "items (stream_queue awaiting_bundle) = [MessageEvent ''hi'', AwaitEvent]"
    "items (stream_queue resumed_bundle) = []"
    "run resumed_bundle = run awaiting_bundle"
    by (simp_all add: resumed_bundle_def awaiting_bundle_def Queue_init_def)
  have d: "dom (runs awaiting_app) = {''r1''}" "scheduled awaiting_app = [''r1'']"
    by (simp_all add: awaiting_app_def)
  have e: "awaiting_bundle
      \<lparr>stream_queue := \<lparr>maxsize = 0, items = [], is_shutdown = False\<rparr>,
       await_queue := (await_queue awaiting_bundle)
         \<lparr>items := items (await_queue awaiting_bundle) @
            [await_resume (example_resume STREAM)]\<rparr>\<rparr> = resumed_bundle"
    by (simp add: resumed_bundle_def awaiting_bundle_def Queue_init_def example_resume_def)
  note w = resume_stream_new_queue_same_bundle [OF r t m o f]
  from w have 1: "resume_run awaiting_app ''r1'' (example_resume STREAM) =
     (Inr (Done (StreamingResponse ''r1'')),
      awaiting_app\<lparr>runs := [''r1'' \<mapsto> resumed_bundle]\<rparr>)"
    unfolding e by (simp add: awaiting_app_def)
  from w d have 2:
    "dom (runs (snd (resume_run awaiting_app ''r1'' (example_resume STREAM)))) = {''r1''}"
    "scheduled (snd (resume_run awaiting_app ''r1'' (example_resume STREAM))) = [''r1'']"
    by simp_all
  from w have 3:
    "stream_open (snd (resume_run awaiting_app ''r1'' (example_resume STREAM))) ''r1''"
    by blast
  from w 3 have 4: "stream_open (snd (cancel_run
     (snd (resume_run awaiting_app ''r1'' (example_resume STREAM))) ''r1'')) ''r1''"
    by blast
  from r t m o f i 1 2 3 4 show ?thesis by blast
qed

section \<open>Creating a run: async and sync mode\<close>

text \<open>
  C7. For a registered agent, \<^verbatim>\<open>create_run\<close> in async mode returns at once: in the same
  call that schedules the execution and registers the bundle it answers 202 with the
  snapshot of the new run. In sync mode the route, after the same scheduling and
  registration, is suspended in \<^verbatim>\<open>join\<close>: it has no answer in the state it leaves
  behind, and in any later state it returns exactly if the run is terminal or Awaiting
  there, and then it returns the run's whole snapshot.
\<close>

theorem create_run_async_returns_sync_joins:
  assumes "agents s (req_agent_name request) = Some a"
  shows "(mode request = ASYNC \<longrightarrow>
            create_run s request new_id =
              (Inr (Done (JSONResponse 202
                 (Run_init new_id (name a) (req_session_id request)))),
               s\<lparr>scheduled := scheduled s @ [new_id],
                 runs := (runs s)(new_id \<mapsto>
                   RunBundle_init a (Run_init new_id (name a) (req_session_id request))
                     (create_task (req_input request)))\<rparr>)) \<and>
         (mode request = SYNC \<longrightarrow>
            create_run s request new_id =
              (Inr (Suspended (Join new_id)),
               s\<lparr>scheduled := scheduled s @ [new_id],
                 runs := (runs s)(new_id \<mapsto>
                   RunBundle_init a (Run_init new_id (name a) (req_session_id request))
                     (create_task (req_input request)))\<rparr>) \<and>
            after_join (snd (create_run s request new_id)) new_id = None \<and>
            (\<forall>t bundle. runs t new_id = Some bundle \<longrightarrow>
               after_join t new_id =
                 (if is_terminal (status (run bundle)) \<or> status (run bundle) = AWAITING
                  then Some (RunResponse (run bundle)) else None)))"
  using assms
  by (simp add: create_run_def find_agent_def RunBundle_init_def Run_init_def
      after_join_def join_def is_terminal_def)

theorem create_run_async_returns_sync_joins_witness:
  "agents empty_app (req_agent_name (example_create ASYNC)) = Some echo_agent \<and>
   mode (example_create ASYNC) = ASYNC \<and>
   create_run empty_app (example_create ASYNC) ''r1'' =
     (Inr (Done (JSONResponse 202 (Run_init ''r1'' ''echo'' None))),
      empty_app\<lparr>scheduled := [''r1''],
         runs := [''r1'' \<mapsto>
           RunBundle_init echo_agent (Run_init ''r1'' ''echo'' None)
             (create_task [''hello''])]\<rparr>) \<and>
   agents empty_app (req_agent_name (example_create SYNC)) = Some echo_agent \<and>
   mode (example_create SYNC) = SYNC \<and>
   fst (create_run empty_app (example_create SYNC) ''r1'') =
     Inr (Suspended (Join ''r1'')) \<and>
   after_join (snd (create_run empty_app (example_create SYNC) ''r1'')) ''r1'' = None \<and>
   runs (example_app IN_PROGRESS) ''r1'' = Some (example_bundle IN_PROGRESS) \<and>
   after_join (example_app IN_PROGRESS) ''r1'' = None \<and>
   runs (example_app AWAITING) ''r1'' = Some (example_bundle AWAITING) \<and>
   after_join (example_app AWAITING) ''r1'' = Some (RunResponse (example_run AWAITING)) \<and>
   runs (example_app FAILED) ''r1'' = Some (example_bundle FAILED) \<and>
   after_join (example_app FAILED) ''r1'' = Some (RunResponse (example_run FAILED))"
proof -
  have a: "agents empty_app (req_agent_name (example_create ASYNC)) = Some echo_agent"
    and b: "agents empty_app (req_agent_name (example_create SYNC)) = Some echo_agent"
    by (simp_all add: empty_app_def example_create_def)
  have ma: "mode (example_create ASYNC) = ASYNC" and ms: "mode (example_create SYNC) = SYNC"
    by (simp_all add: example_create_def)
  have rp: "runs (example_app IN_PROGRESS) ''r1'' = Some (example_bundle IN_PROGRESS)"
    and rw: "runs (example_app AWAITING) ''r1'' = Some (example_bundle AWAITING)"
    and rf: "runs (example_app FAILED) ''r1'' = Some (example_bundle FAILED)"
    by (simp_all add: example_app_def)
  have st: "status (example_run st') = st'"
    "run (example_bundle st') = example_run st'" for st'
    by (simp_all add: example_bundle_def example_run_def)
  have f: "name echo_agent = ''echo''" "req_session_id (example_create ASYNC) = None"
    "req_input (example_create ASYNC) = [''hello'']"
    "scheduled empty_app = []" "runs empty_app = Map.empty"
    by (simp_all add: echo_agent_def example_create_def empty_app_def)
  note async = create_run_async_returns_sync_joins [OF a, of "''r1''"]
  note sync = create_run_async_returns_sync_joins [OF b, of "''r1''"]
  from sync ms have j: "after_join t ''r1'' =
        (if is_terminal (status (run c)) \<or> status (run c) = AWAITING
         then Some (RunResponse (run c)) else None)"
    if "runs t ''r1'' = Some c" for t c
    using that by blast
  have p: "after_join (example_app IN_PROGRESS) ''r1'' = None"
    by (simp add: j [OF rp] st is_terminal_def)
  have w: "after_join (example_app AWAITING) ''r1'' =
      Some (RunResponse (example_run AWAITING))"
    by (simp add: j [OF rw] st)
  have x: "after_join (example_app FAILED) ''r1'' =
      Some (RunResponse (example_run FAILED))"
    by (simp add: j [OF rf] st is_terminal_def)
  from async ma have c: "create_run empty_app (example_create ASYNC) ''r1'' =
     (Inr (Done (JSONResponse 202 (Run_init ''r1'' ''echo'' None))),
      empty_app\<lparr>scheduled := [''r1''],
         runs := [''r1'' \<mapsto>
           RunBundle_init echo_agent (Run_init ''r1'' ''echo'' None)
             (create_task [''hello''])]\<rparr>)"
    by (simp add: f)
  from sync ms have "\<exists>t. create_run empty_app (example_create SYNC) ''r1'' =
     (Inr (Suspended (Join ''r1'')), t)"
    by blast
  then have d: "fst (create_run empty_app (example_create SYNC) ''r1'') =
     Inr (Suspended (Join ''r1''))"
    by auto
  from sync ms have e:
    "after_join (snd (create_run empty_app (example_create SYNC) ''r1'')) ''r1'' = None"
    by blast
  from a b ma ms rp rw rf p w x c d e show ?thesis by simp
qed

end
